theory Spec2Isabelle
  imports Complex_Main "HOL-Library.Word"
begin

unbundle bit_operations_syntax

section \<open>Configuration and measurement data\<close>

text \<open>
  The class \<^verbatim>\<open>Config\<close> holds the run parameters. Python floats are modelled by the real
  numbers they denote, Python integers by \<open>int\<close>, \<^verbatim>\<open>None\<close> by \<open>option\<close>.
\<close>

record Config =
  Logging_Level :: string
  CSV_File :: "string option"
  CSV_Dialect :: string
  Interval :: real
  Console_Alert :: "real option"

text \<open>
  The class \<^verbatim>\<open>Data\<close>. Its attributes carry the prefix \<open>data_\<close> here, since
  \<^verbatim>\<open>cpu_load\<close> is also the name of a function of the program.
\<close>

record Data =
  data_time :: "string option"
  data_cpu_temp :: real
  data_cpu_load :: real
  data_cpu_freq :: real
  data_cpu_volts :: real
  data_gpu_temp :: real
  data_throttled :: int
  data_decimal_separator :: string

text \<open>\<^verbatim>\<open>Data.__init__\<close>: the class attributes, and the separator of the finnish dialect.\<close>

definition Data_init :: "string \<Rightarrow> Data" where
  "Data_init dialect =
     \<lparr>data_time = None, data_cpu_temp = 0, data_cpu_load = 0, data_cpu_freq = 0,
      data_cpu_volts = 0, data_gpu_temp = 0, data_throttled = 0x00,
      data_decimal_separator = (if dialect = ''finnish'' then '','' else ''.'')\<rparr>"

section \<open>Throttle word\<close>

text \<open>
  \<^verbatim>\<open>Data.throttled\<close> is what \<^verbatim>\<open>int(s, 16)\<close> returned. A Python integer used as a
  condition is true exactly when it is not zero.
\<close>

definition truthy :: "int \<Rightarrow> bool" where
  "truthy n = (n \<noteq> 0)"

text \<open>
  \<^verbatim>\<open>Data.throttled_string\<close>: the three masked values, then the three arguments of
  \<^verbatim>\<open>"[{}{}{}]".format\<close> in the order of the source.
\<close>

definition throttled_string :: "int \<Rightarrow> string" where
  "throttled_string throttled =
     (let u = throttled AND 0x00010001;
          a = throttled AND 0x00020002;
          t = throttled AND 0x00040004
      in ''['' @
         (if truthy (u AND 0x01) then ''U'' else if u > 0x00 then ''u'' else '' '') @
         (if truthy (a AND 0x02) then ''A'' else if a > 0x00 then ''a'' else '' '') @
         (if truthy (t AND 0x04) then ''T'' else if t > 0x00 then ''t'' else '' '') @
         '']'')"

section \<open>Header and rows of the CSV log\<close>

text \<open>\<^verbatim>\<open>Data.header\<close>: the level is compared as a string; anything else is FULL.\<close>

definition header :: "string \<Rightarrow> string list" where
  "header level =
     (if level = ''BASIC'' then
        [''Time'', ''CPU Temperature'', ''CPU MHz'', ''ARM Frequency Capped'', ''Throttled'']
      else if level = ''STANDARD'' then
        [''Time'', ''CPU Temperature'', ''CPU Load'', ''CPU MHz'', ''CPU Volts'',
         ''Undervoltage'', ''ARM Frequency Capped'', ''Throttled'']
      else
        [''Time'', ''CPU Temperature'', ''CPU Load'', ''CPU MHz'', ''CPU Volts'',
         ''GPU Temperature'', ''Undervoltage'', ''ARM Frequency Capped'', ''Throttled'',
         ''Undervoltage has occured'', ''ARM Frequencey Capping has occured'',
         ''Throttling has occured''])"

subsection \<open>Numbers as text\<close>

text \<open>The decimal digits of a natural number, as \<^verbatim>\<open>str\<close> writes them.\<close>

fun decimal :: "nat \<Rightarrow> string" where
  "decimal n =
     (if n < 10 then [''0123456789'' ! n]
      else decimal (n div 10) @ [''0123456789'' ! (n mod 10)])"

text \<open>
  Rounding to the nearest integer, a tie going to the even neighbour, as Python's
  \<^verbatim>\<open>round\<close> does on the exact value of its argument.
\<close>

definition round_half_even :: "real \<Rightarrow> int" where
  "round_half_even y =
     (let f = \<lfloor>y\<rfloor>; d = y - of_int f
      in if d < 1 / 2 then f else if 1 / 2 < d then f + 1
         else if even f then f else f + 1)"

text \<open>
  The built-in composition \<^verbatim>\<open>str(round(fval, 1))\<close>, for a finite float of magnitude
  below \<open>10 ^ 16\<close> (where \<^verbatim>\<open>str\<close> uses positional notation): the sign of the
  argument (which \<^verbatim>\<open>round\<close> keeps, also on a result of zero), the integer part, a
  point and one digit. \<open>fval\<close> is the exact value of the float.
\<close>

definition str_round1 :: "real \<Rightarrow> string" where
  "str_round1 fval =
     (let n = nat (round_half_even (\<bar>fval\<bar> * 10))
      in (if fval < 0 then ''-'' else '''') @ decimal (n div 10) @ ''.'' @ decimal (n mod 10))"

text \<open>\<^verbatim>\<open>s.replace('.', new)\<close>: every point of \<open>s\<close> becomes the string \<open>new\<close>.\<close>

definition replace_point :: "string \<Rightarrow> string \<Rightarrow> string" where
  "replace_point new s = concat (map (\<lambda>c. if c = CHR ''.'' then new else [c]) s)"

text \<open>\<^verbatim>\<open>Data.__float2str\<close>.\<close>

definition float2str :: "Data \<Rightarrow> real \<Rightarrow> string" where
  "float2str self fval =
     (if data_decimal_separator self \<noteq> ''.''
      then replace_point (data_decimal_separator self) (str_round1 fval)
      else str_round1 fval)"

text \<open>A value of a row: \<^verbatim>\<open>None\<close>, a string or an integer.\<close>

datatype field = FNone | FStr string | FInt int

definition time_field :: "Data \<Rightarrow> field" where
  "time_field d = (case data_time d of None \<Rightarrow> FNone | Some s \<Rightarrow> FStr s)"

definition flag :: "int \<Rightarrow> int \<Rightarrow> field" where
  "flag throttled m = FInt (if truthy (throttled AND m) then 1 else 0)"

text \<open>\<^verbatim>\<open>Data.row\<close>, for the logging level of the configuration.\<close>

definition row :: "string \<Rightarrow> Data \<Rightarrow> field list" where
  "row level self =
     (if level = ''BASIC'' then
        [time_field self,
         FStr (float2str self (data_cpu_temp self)),
         FStr (float2str self (data_cpu_freq self)),
         flag (data_throttled self) 0x02,
         flag (data_throttled self) 0x04]
      else if level = ''STANDARD'' then
        [time_field self,
         FStr (float2str self (data_cpu_temp self)),
         FStr (float2str self (data_cpu_load self)),
         FStr (float2str self (data_cpu_freq self)),
         FStr (float2str self (data_cpu_volts self)),
         flag (data_throttled self) 0x01,
         flag (data_throttled self) 0x02,
         flag (data_throttled self) 0x04]
      else
        [time_field self,
         FStr (float2str self (data_cpu_temp self)),
         FStr (float2str self (data_cpu_load self)),
         FStr (float2str self (data_cpu_freq self)),
         FStr (float2str self (data_cpu_volts self)),
         FStr (float2str self (data_gpu_temp self)),
         flag (data_throttled self) 0x01,
         flag (data_throttled self) 0x02,
         flag (data_throttled self) 0x04,
         flag (data_throttled self) 0x10000,
         flag (data_throttled self) 0x20000,
         flag (data_throttled self) 0x40000])"

section \<open>Errors and the outside world\<close>

text \<open>
  The exceptions that matter to the program. \<^verbatim>\<open>sys.exit(n)\<close> raises
  \<^verbatim>\<open>SystemExit\<close>; \<open>OtherError\<close> stands for any failure of a sensor query.
\<close>

datatype error = KeyboardInterrupt | SystemExit int | ValueError | ZeroDivisionError | OtherError

text \<open>What opening \<^verbatim>\<open>/proc/stat\<close> and reading its first line gives.\<close>

datatype file_read = IOError | FirstLine string

text \<open>
  The world outside the process: the value that the \<open>k\<close>-th call of \<^verbatim>\<open>time.time()\<close>
  returns and the result of the \<open>k\<close>-th read of \<^verbatim>\<open>/proc/stat\<close>, with the number of
  calls made so far.
\<close>

record world =
  time_src :: "nat \<Rightarrow> real"
  time_calls :: nat
  stat_src :: "nat \<Rightarrow> file_read"
  stat_calls :: nat

definition time_time :: "world \<Rightarrow> real \<times> world" where
  "time_time w = (time_src w (time_calls w), w\<lparr>time_calls := time_calls w + 1\<rparr>)"

section \<open>CPU counters and CPU load\<close>

text \<open>\<^verbatim>\<open>s.split(' ')\<close>: every single space separates, so two spaces enclose an empty string.\<close>

fun split_space :: "string \<Rightarrow> string list" where
  "split_space [] = [[]]"
| "split_space (c # cs) =
     (if c = CHR '' '' then [] # split_space cs
      else (case split_space cs of
              [] \<Rightarrow> [[c]]
            | w # ws \<Rightarrow> (c # w) # ws))"

text \<open>
  \<^verbatim>\<open>int(s)\<close> on ASCII text: white space around the number is dropped, a sign may come
  first, and the digits may be separated by single underscores. Anything else raises
  \<^verbatim>\<open>ValueError\<close>.
\<close>

definition is_space :: "char \<Rightarrow> bool" where
  "is_space c = (let n = (of_char c :: nat) in n = 32 \<or> (9 \<le> n \<and> n \<le> 13) \<or> (28 \<le> n \<and> n \<le> 31))"

definition is_digit :: "char \<Rightarrow> bool" where
  "is_digit c = (let n = (of_char c :: nat) in 48 \<le> n \<and> n \<le> 57)"

definition digit_of :: "char \<Rightarrow> nat" where
  "digit_of c = of_char c - 48"

fun digits_value :: "string \<Rightarrow> nat \<Rightarrow> nat option" where
  "digits_value [] acc = Some acc"
| "digits_value (c # cs) acc =
     (if is_digit c then digits_value cs (10 * acc + digit_of c)
      else if c = CHR ''_'' then
        (case cs of
           [] \<Rightarrow> None
         | d # ds \<Rightarrow> if is_digit d then digits_value ds (10 * acc + digit_of d) else None)
      else None)"

definition strip :: "string \<Rightarrow> string" where
  "strip s = rev (dropWhile is_space (rev (dropWhile is_space s)))"

definition unsigned_int :: "string \<Rightarrow> nat option" where
  "unsigned_int s =
     (case s of
        [] \<Rightarrow> None
      | c # cs \<Rightarrow> if is_digit c then digits_value cs (digit_of c) else None)"

definition py_int :: "string \<Rightarrow> error + int" where
  "py_int s =
     (let t = strip s;
          (neg, body) = (case t of
                           [] \<Rightarrow> (False, [])
                         | c # cs \<Rightarrow> if c = CHR ''-'' then (True, cs)
                                    else if c = CHR ''+'' then (False, cs)
                                    else (False, t))
      in case unsigned_int body of
           None \<Rightarrow> Inl ValueError
         | Some n \<Rightarrow> Inr (if neg then - int n else int n))"

text \<open>
  \<^verbatim>\<open>cpu_times\<close>. The list of the source, and its loop over
  \<^verbatim>\<open>enumerate(cputimes.split(' ')[2:])\<close>: \<open>index\<close> counts from 0 at the first element
  that is left after the slice.
\<close>

definition active_indeces :: "nat list" where
  "active_indeces = [1, 2, 3, 7, 8]"

fun cpu_times_loop :: "nat \<Rightarrow> string list \<Rightarrow> int \<times> int \<Rightarrow> error + (int \<times> int)" where
  "cpu_times_loop index [] (cpuactive, cputotal) = Inr (cpuactive, cputotal)"
| "cpu_times_loop index (element # rest) (cpuactive, cputotal) =
     (case py_int element of
        Inl e \<Rightarrow> Inl e
      | Inr v \<Rightarrow>
          cpu_times_loop (index + 1) rest
            (if index \<in> set active_indeces then cpuactive + v else cpuactive, cputotal + v))"

definition cpu_times_line :: "string \<Rightarrow> error + (int \<times> int)" where
  "cpu_times_line cputimes = cpu_times_loop 0 (drop 2 (split_space cputimes)) (0, 0)"

text \<open>An \<^verbatim>\<open>IOError\<close> is printed and ends the process with status 3.\<close>

definition cpu_times :: "world \<Rightarrow> error + ((int \<times> int) \<times> world)" where
  "cpu_times w =
     (case stat_src w (stat_calls w) of
        IOError \<Rightarrow> Inl (SystemExit 3)
      | FirstLine cputimes \<Rightarrow>
          (case cpu_times_line cputimes of
             Inl e \<Rightarrow> Inl e
           | Inr r \<Rightarrow> Inr (r, w\<lparr>stat_calls := stat_calls w + 1\<rparr>)))"

text \<open>
  The expression in the \<^verbatim>\<open>try\<close> block of \<^verbatim>\<open>cpu_load\<close>. Python evaluates
  \<^verbatim>\<open>100.0 * x / y\<close> from the left and raises \<^verbatim>\<open>ZeroDivisionError\<close> when the divisor
  is zero; \<^verbatim>\<open>float\<close> of an integer is the integer itself here (the counters are far
  below \<open>2 ^ 53\<close>).
\<close>

definition load_expr :: "int \<times> int \<Rightarrow> int \<times> int \<Rightarrow> error + real" where
  "load_expr prev curr1 =
     (if real_of_int (snd curr1 - snd prev) = 0 then Inl ZeroDivisionError
      else Inr (100.0 * (real_of_int (snd curr1 - snd prev) - real_of_int (fst curr1 - fst prev))
                / real_of_int (snd curr1 - snd prev)))"

text \<open>
  \<^verbatim>\<open>cpu_load\<close>. The function attribute \<^verbatim>\<open>cpu_load.prev\<close> is the first argument
  (\<open>None\<close>: not set yet, which raises \<^verbatim>\<open>AttributeError\<close>); the result carries the load,
  the attribute as the call leaves it, and the world. The variable \<^verbatim>\<open>curr\<close> of the
  source is \<open>curr1\<close>.
\<close>

definition cpu_load :: "(int \<times> int) option \<Rightarrow> world \<Rightarrow> error + (real \<times> (int \<times> int) option \<times> world)" where
  "cpu_load prev_attr w =
     (case (case prev_attr of Some p \<Rightarrow> Inr (p, w) | None \<Rightarrow> cpu_times w) of
        Inl e \<Rightarrow> Inl e
      | Inr (prev, w1) \<Rightarrow>
          (case cpu_times w1 of
             Inl e \<Rightarrow> Inl e
           | Inr (curr1, w2) \<Rightarrow>
               (let load = (case load_expr prev curr1 of Inl e \<Rightarrow> 0.0 | Inr v \<Rightarrow> v)
                in Inr (load, Some curr1, w2))))"

text \<open>A world in which the \<open>k\<close>-th read of \<^verbatim>\<open>/proc/stat\<close> gives the line \<open>lines k\<close>.\<close>

definition stat_world :: "(nat \<Rightarrow> string) \<Rightarrow> world" where
  "stat_world lines =
     \<lparr>time_src = (\<lambda>k. 0), time_calls = 0, stat_src = (\<lambda>k. FirstLine (lines k)), stat_calls = 0\<rparr>"

section \<open>The console alert\<close>

text \<open>
  \<^verbatim>\<open>console_throttling_alert\<close>. The arguments are \<^verbatim>\<open>Config.Console_Alert\<close>,
  \<^verbatim>\<open>data.throttled\<close> and the function attribute \<^verbatim>\<open>last_beep\<close> (\<open>None\<close>: not set yet).
  The result says whether the bell was printed and gives the attribute as the call
  leaves it.
\<close>

definition console_throttling_alert ::
    "real option \<Rightarrow> int \<Rightarrow> real option \<Rightarrow> world \<Rightarrow> bool \<times> real option \<times> world" where
  "console_throttling_alert alert throttled last_beep w =
     (case alert of
        None \<Rightarrow> (False, last_beep, w)
      | Some min_interval \<Rightarrow>
          (let (lb, w1) = (case last_beep of Some l \<Rightarrow> (l, w) | None \<Rightarrow> time_time w)
           in if throttled AND 0x07 = 0 then (False, Some lb, w1)
              else (let (t, w2) = time_time w1
                    in if t - lb > min_interval
                       then (let (t', w3) = time_time w2 in (True, Some t', w3))
                       else (False, Some lb, w2))))"




section \<open>The main loop\<close>

text \<open>What the process has done that can be seen from outside, in order.\<close>

datatype event =
    Sleep real
  | Bell
  | CsvRow "field list"
  | StatusLine Data
  | CsvClose
  | PrintNewline

datatype status = Running | Exited int | Died error

record sched =
  next_tick :: real
  data :: Data
  last_beep :: "real option"
  world :: world
  trace :: "event list"
  status :: status




text \<open>Lines 548 and 549: the start of the loop, with the \<^verbatim>\<open>data\<close> object of line 540.\<close>

definition scheduler_start :: "Config \<Rightarrow> world \<Rightarrow> sched" where
  "scheduler_start cfg w =
     (let (start_time, w1) = time_time w
      in \<lparr>next_tick = start_time + 0.5, data = Data_init (CSV_Dialect cfg),
          last_beep = None, world = w1, trace = [], status = Running\<rparr>)"

text \<open>
  The handler of \<^verbatim>\<open>KeyboardInterrupt\<close>: \<^verbatim>\<open>csv_file.close()\<close> (the name is bound
  exactly when a CSV file was configured; the \<^verbatim>\<open>NameError\<close> is swallowed otherwise),
  \<^verbatim>\<open>print("")\<close> and \<^verbatim>\<open>sys.exit()\<close>, which ends the process with status 0.
\<close>

definition on_interrupt :: "Config \<Rightarrow> sched \<Rightarrow> sched" where
  "on_interrupt cfg s =
     s\<lparr>trace := trace s @ (if CSV_File cfg \<noteq> None then [CsvClose] else []) @ [PrintNewline],
       status := Exited 0\<rparr>"

text \<open>Lines 552 to 556.\<close>

definition do_sleep :: "sched \<Rightarrow> sched" where
  "do_sleep s =
     (let (now, w1) = time_time (world s);
          sleep_duration = next_tick s - now
      in s\<lparr>world := w1,
           trace := trace s @ (if sleep_duration > 0 then [Sleep sleep_duration] else [])\<rparr>)"

text \<open>Line 559.\<close>

definition do_alert :: "Config \<Rightarrow> sched \<Rightarrow> sched" where
  "do_alert cfg s =
     (case console_throttling_alert (Console_Alert cfg) (data_throttled (data s))
             (last_beep s) (world s) of
        (bell, lb, w1) \<Rightarrow>
          s\<lparr>last_beep := lb, world := w1,
            trace := trace s @ (if bell then [Bell] else [])\<rparr>)"

text \<open>Lines 560 and 561.\<close>

definition do_csv :: "Config \<Rightarrow> sched \<Rightarrow> sched" where
  "do_csv cfg s =
     (if CSV_File cfg \<noteq> None
      then s\<lparr>trace := trace s @ [CsvRow (row (Logging_Level cfg) (data s))]\<rparr>
      else s)"

text \<open>Lines 562 to 576: the status line shows the attributes of \<^verbatim>\<open>data\<close>.\<close>

definition do_print :: "sched \<Rightarrow> sched" where
  "do_print s = s\<lparr>trace := trace s @ [StatusLine (data s)]\<rparr>"








section \<open>Properties of the throttle word\<close>

lemma and_two_bits: "(w::int) AND (2 ^ m OR 2 ^ n) \<noteq> 0 \<longleftrightarrow> bit w m \<or> bit w n"
  by (simp add: bit.conj_disj_distrib or_eq_0_iff and_exp_eq_0_iff_not_bit)

lemma and_two_bits_pos: "(w::int) AND (2 ^ m OR 2 ^ n) > 0 \<longleftrightarrow> bit w m \<or> bit w n"
proof -
  have "0 \<le> w AND (2 ^ m OR 2 ^ n)" by simp
  then show ?thesis using and_two_bits [of w m n] by linarith
qed

lemma and_and_low:
  "m \<noteq> n \<Longrightarrow> truthy (((w::int) AND (2 ^ m OR 2 ^ n)) AND 2 ^ m) \<longleftrightarrow> bit w m"
  unfolding truthy_def
  by (auto simp add: and_exp_eq_0_iff_not_bit bit_and_iff bit_or_iff bit_exp_iff)

lemma cell_U:
  "truthy ((w AND 0x10001) AND 0x01) = bit w 0"
  "(w AND 0x10001 > 0) = (bit w 0 \<or> bit w 16)"
  "(w AND 0x10001 \<noteq> 0) = (bit w 0 \<or> bit w 16)"
  using and_and_low [of 0 16 w] and_two_bits_pos [of w 0 16] and_two_bits [of w 0 16]
  by simp_all

lemma cell_A:
  "truthy ((w AND 0x20002) AND 0x02) = bit w 1"
  "(w AND 0x20002 > 0) = (bit w 1 \<or> bit w 17)"
  "(w AND 0x20002 \<noteq> 0) = (bit w 1 \<or> bit w 17)"
  using and_and_low [of 1 17 w] and_two_bits_pos [of w 1 17] and_two_bits [of w 1 17]
  by simp_all

lemma cell_T:
  "truthy ((w AND 0x40004) AND 0x04) = bit w 2"
  "(w AND 0x40004 > 0) = (bit w 2 \<or> bit w 18)"
  "(w AND 0x40004 \<noteq> 0) = (bit w 2 \<or> bit w 18)"
  using and_and_low [of 2 18 w] and_two_bits_pos [of w 2 18] and_two_bits [of w 2 18]
  by simp_all

lemma throttled_string_bits:
  "throttled_string w =
     [CHR ''['',
      if bit w 0 then CHR ''U'' else if bit w 16 then CHR ''u'' else CHR '' '',
      if bit w 1 then CHR ''A'' else if bit w 17 then CHR ''a'' else CHR '' '',
      if bit w 2 then CHR ''T'' else if bit w 18 then CHR ''t'' else CHR '' '',
      CHR '']'']"
  unfolding throttled_string_def Let_def
  by (simp only: cell_U cell_A cell_T) simp

text \<open>
  C1. For every throttle word (every integer, so every 32-bit word), the string that
  \<^verbatim>\<open>throttled_string\<close> returns is the three cells between square brackets. Cell U is
  \<open>U\<close> exactly when bit 0 is set, \<open>u\<close> exactly when the word meets the mask of bits 0
  and 16 but bit 0 is clear, and a blank otherwise; cell A does the same with bits 1 and
  17, cell T with bits 2 and 18. The word \<open>0x70000\<close> gives the cells \<open>uat\<close> and the
  word \<open>0x07\<close> the cells \<open>UAT\<close>.
\<close>

theorem throttled_string_cells:
  "throttled_string w =
     [CHR ''['',
      if bit w 0 then CHR ''U'' else if w AND 0x00010001 \<noteq> 0 then CHR ''u'' else CHR '' '',
      if bit w 1 then CHR ''A'' else if w AND 0x00020002 \<noteq> 0 then CHR ''a'' else CHR '' '',
      if bit w 2 then CHR ''T'' else if w AND 0x00040004 \<noteq> 0 then CHR ''t'' else CHR '' '',
      CHR '']'']
   \<and> (w AND 0x00010001 \<noteq> 0) = (bit w 0 \<or> bit w 16)
   \<and> (w AND 0x00020002 \<noteq> 0) = (bit w 1 \<or> bit w 17)
   \<and> (w AND 0x00040004 \<noteq> 0) = (bit w 2 \<or> bit w 18)
   \<and> throttled_string 0x70000 = ''[uat]''
   \<and> throttled_string 0x07 = ''[UAT]''"
proof -
  have ex1: "throttled_string 0x70000 = ''[uat]''"
    by (simp add: throttled_string_def truthy_def)
  have ex2: "throttled_string 0x07 = ''[UAT]''"
    by (simp add: throttled_string_def truthy_def)
  show ?thesis
    using ex1 ex2 by (simp only: throttled_string_bits cell_U cell_A cell_T) simp
qed






lemma float2str_throttled [simp]: "float2str (d\<lparr>data_throttled := w\<rparr>) x = float2str d x"
  by (simp add: float2str_def)

lemma time_field_throttled [simp]: "time_field (d\<lparr>data_throttled := w\<rparr>) = time_field d"
  by (simp add: time_field_def)






section \<open>Properties of the header\<close>

text \<open>
  C7. The header has 5 fields at BASIC, 8 at STANDARD and 12 at FULL, all different.
  Every field name of BASIC is a field name of STANDARD, every field name of STANDARD one
  of FULL, both inclusions proper, and the field names of FULL are those of STANDARD
  together with the GPU temperature and the three "has occured" flags.
\<close>

theorem header_levels:
  "length (header ''BASIC'') = 5 \<and> length (header ''STANDARD'') = 8
   \<and> length (header ''FULL'') = 12
   \<and> distinct (header ''BASIC'') \<and> distinct (header ''STANDARD'') \<and> distinct (header ''FULL'')
   \<and> set (header ''BASIC'') \<subset> set (header ''STANDARD'')
   \<and> set (header ''STANDARD'') \<subset> set (header ''FULL'')
   \<and> set (header ''FULL'') =
       set (header ''STANDARD'') \<union>
       {''GPU Temperature'', ''Undervoltage has occured'',
        ''ARM Frequencey Capping has occured'', ''Throttling has occured''}"
proof -
  have len: "length (header ''BASIC'') = 5" "length (header ''STANDARD'') = 8"
    "length (header ''FULL'') = 12"
    by (simp_all add: header_def)
  have dist: "distinct (header ''BASIC'')" "distinct (header ''STANDARD'')"
    "distinct (header ''FULL'')"
    by (simp_all add: header_def)
  have sub1: "set (header ''BASIC'') \<subseteq> set (header ''STANDARD'')"
    by (simp add: header_def)
  have sub2: "set (header ''STANDARD'') \<subseteq> set (header ''FULL'')"
    by (simp add: header_def)
  have "''CPU Load'' \<in> set (header ''STANDARD'')" "''CPU Load'' \<notin> set (header ''BASIC'')"
    by (simp_all add: header_def)
  then have ne1: "set (header ''BASIC'') \<noteq> set (header ''STANDARD'')"
    by blast
  have "''GPU Temperature'' \<in> set (header ''FULL'')"
    "''GPU Temperature'' \<notin> set (header ''STANDARD'')"
    by (simp_all add: header_def)
  then have ne2: "set (header ''STANDARD'') \<noteq> set (header ''FULL'')"
    by blast
  have full: "set (header ''FULL'') =
       set (header ''STANDARD'') \<union>
       {''GPU Temperature'', ''Undervoltage has occured'',
        ''ARM Frequencey Capping has occured'', ''Throttling has occured''}"
    by (simp add: header_def insert_commute)
  from len dist sub1 sub2 ne1 ne2 full show ?thesis
    by (simp only: psubset_eq) simp
qed

section \<open>Properties of the numeric rendering\<close>

lemma digit_not_point: "k < 10 \<Longrightarrow> ''0123456789'' ! k \<noteq> CHR ''.''"
proof -
  assume "k < 10"
  then have "''0123456789'' ! k \<in> set ''0123456789''"
    by (intro nth_mem) simp
  moreover have "CHR ''.'' \<notin> set ''0123456789''"
    by simp
  ultimately show ?thesis by metis
qed

lemma decimal_no_point: "CHR ''.'' \<notin> set (decimal n)"
proof (induction n rule: decimal.induct)
  case (1 n)
  show ?case
  proof (cases "n < 10")
    case True
    then show ?thesis
      using digit_not_point [of n] by (subst decimal.simps) auto
  next
    case False
    moreover have "''0123456789'' ! (n mod 10) \<noteq> CHR ''.''"
      by (rule digit_not_point) simp
    ultimately show ?thesis
      using "1.IH" by (subst decimal.simps) auto
  qed
qed

lemma replace_point_append:
  "replace_point new (a @ b) = replace_point new a @ replace_point new b"
  by (simp add: replace_point_def)

lemma replace_point_id: "CHR ''.'' \<notin> set s \<Longrightarrow> replace_point new s = s"
  by (induction s) (auto simp add: replace_point_def)

lemma replace_point_body:
  "replace_point new ((if neg then ''-'' else '''') @ decimal a @ ''.'' @ decimal b)
     = (if neg then ''-'' else '''') @ decimal a @ new @ decimal b"
proof -
  have "replace_point new (if neg then ''-'' else '''') = (if neg then ''-'' else '''')"
    by (simp add: replace_point_def)
  moreover have "replace_point new ''.'' = new"
    by (simp add: replace_point_def)
  ultimately show ?thesis
    by (simp only: replace_point_append replace_point_id [OF decimal_no_point])
qed

lemma round_half_even_near: "\<bar>real_of_int (round_half_even y) - y\<bar> \<le> 1 / 2"
  unfolding round_half_even_def Let_def
  by (auto simp add: abs_le_iff)

lemma round_half_even_nonneg: "0 \<le> y \<Longrightarrow> 0 \<le> round_half_even y"
  unfolding round_half_even_def Let_def by auto

lemma tenths_near: "\<bar>real (nat (round_half_even (\<bar>x\<bar> * 10))) / 10 - \<bar>x\<bar>\<bar> \<le> 1 / 20"
proof -
  define r where "r = real_of_int (round_half_even (\<bar>x\<bar> * 10))"
  define a where "a = \<bar>x\<bar>"
  have nn: "0 \<le> round_half_even (\<bar>x\<bar> * 10)"
    by (rule round_half_even_nonneg) simp
  then have cast: "real (nat (round_half_even (\<bar>x\<bar> * 10))) = r"
    by (simp add: r_def)
  have near: "\<bar>r - a * 10\<bar> \<le> 1 / 2"
    unfolding r_def a_def by (rule round_half_even_near)
  have "r / 10 - a = (r - a * 10) / 10"
    by (simp add: field_simps)
  then have "\<bar>r / 10 - a\<bar> = \<bar>r - a * 10\<bar> / 10"
    by (simp only: abs_divide abs_numeral)
  with near have "\<bar>r / 10 - a\<bar> \<le> 1 / 20"
    by linarith
  then show ?thesis
    by (simp only: cast a_def)
qed

lemma float2str_shape:
  "float2str self fval =
     (if fval < 0 then ''-'' else '''') @
     decimal (nat (round_half_even (\<bar>fval\<bar> * 10)) div 10) @
     data_decimal_separator self @
     decimal (nat (round_half_even (\<bar>fval\<bar> * 10)) mod 10)"
proof (cases "data_decimal_separator self = ''.''")
  case True
  then show ?thesis
    by (simp only: float2str_def str_round1_def Let_def) simp
next
  case False
  then show ?thesis
    by (simp only: float2str_def str_round1_def Let_def replace_point_body if_True simp_thms)
qed

text \<open>
  C8. For every value, \<^verbatim>\<open>__float2str\<close> renders the value rounded to one decimal place
  (the number of tenths nearest to it, so at most one twentieth away), with the decimal
  separator of the \<^verbatim>\<open>Data\<close> object where the point would be: an optional minus sign,
  the integer part, the separator, one digit. The separator is a comma for the finnish
  dialect and a point for every other one. The value 23.04 (as the decimal number, and as
  the double nearest to it) renders as \<open>23,0\<close> with the comma and as \<open>23.0\<close> with the
  point.
\<close>

theorem float2str_rounds:
  "float2str self fval =
     (if fval < 0 then ''-'' else '''') @
     decimal (nat (round_half_even (\<bar>fval\<bar> * 10)) div 10) @
     data_decimal_separator self @
     decimal (nat (round_half_even (\<bar>fval\<bar> * 10)) mod 10)
   \<and> \<bar>real (nat (round_half_even (\<bar>fval\<bar> * 10))) / 10 - \<bar>fval\<bar>\<bar> \<le> 1 / 20
   \<and> data_decimal_separator (Data_init dialect) = (if dialect = ''finnish'' then '','' else ''.'')
   \<and> float2str (Data_init ''finnish'') (2304 / 100) = ''23,0''
   \<and> float2str (Data_init ''excel'') (2304 / 100) = ''23.0''
   \<and> float2str (Data_init ''finnish'') (3242591731706757 / 2 ^ 47) = ''23,0''
   \<and> float2str (Data_init ''excel'') (3242591731706757 / 2 ^ 47) = ''23.0''"
proof -
  have e1: "float2str (Data_init ''finnish'') (2304 / 100) = ''23,0''"
    by (simp add: float2str_def Data_init_def str_round1_def round_half_even_def replace_point_def)
  have e2: "float2str (Data_init ''excel'') (2304 / 100) = ''23.0''"
    by (simp add: float2str_def Data_init_def str_round1_def round_half_even_def replace_point_def)
  have e3: "float2str (Data_init ''finnish'') (3242591731706757 / 2 ^ 47) = ''23,0''"
    by (simp add: float2str_def Data_init_def str_round1_def round_half_even_def replace_point_def)
  have e4: "float2str (Data_init ''excel'') (3242591731706757 / 2 ^ 47) = ''23.0''"
    by (simp add: float2str_def Data_init_def str_round1_def round_half_even_def replace_point_def)
  have sep: "data_decimal_separator (Data_init dialect) = (if dialect = ''finnish'' then '','' else ''.'')"
    by (simp add: Data_init_def)
  from float2str_shape [of self fval] tenths_near [of fval] sep e1 e2 e3 e4
  show ?thesis by (intro conjI)
qed

section \<open>Properties of the CPU counters and the CPU load\<close>

lemmas parse_defs = py_int_def strip_def unsigned_int_def is_space_def is_digit_def digit_of_def

lemma cpu_times_calls:
  "cpu_times w = Inr (r, w') \<Longrightarrow> w' = w\<lparr>stat_calls := stat_calls w + 1\<rparr>"
  by (auto simp add: cpu_times_def split: file_read.splits sum.splits)

lemma load_expr_cases:
  "(case load_expr (a0, t0) (a1, t1) of Inl e \<Rightarrow> 0.0 | Inr v \<Rightarrow> v) =
     (if t1 = t0 then 0
      else 100 * (real_of_int (t1 - t0) - real_of_int (a1 - a0)) / real_of_int (t1 - t0))"
  by (simp add: load_expr_def)

text \<open>
  C2. With the previous snapshot \<open>(active0, total0)\<close> stored and the counters now read
  as \<open>(active1, total1)\<close>, \<^verbatim>\<open>cpu_load\<close> returns
  \<open>100 * ((total1 - total0) - (active1 - active0)) / (total1 - total0)\<close> when the totals
  differ and \<open>0.0\<close>, not an error, when they are equal; the new snapshot is stored.
  Previous (100, 200) with current (150, 250) gives 0, with current (120, 250) it gives 60.
\<close>

theorem cpu_load_formula:
  assumes "cpu_times w = Inr ((active1, total1), w')"
  shows "cpu_load (Some (active0, total0)) w =
           Inr (if total1 = total0 then 0
                else 100 * (real_of_int (total1 - total0) - real_of_int (active1 - active0))
                     / real_of_int (total1 - total0),
                Some (active1, total1), w')"
  using assms by (simp add: cpu_load_def load_expr_cases)

lemma line_120_250:
  "cpu_times_line (''cpu  130 120 0 0 0 0 0 0 0 0\<newline>'') = Inr (120, 250)"
  by (simp add: cpu_times_line_def active_indeces_def parse_defs)

lemma line_150_250:
  "cpu_times_line (''cpu  100 150 0 0 0 0 0 0 0 0\<newline>'') = Inr (150, 250)"
  by (simp add: cpu_times_line_def active_indeces_def parse_defs)

lemma line_100_200:
  "cpu_times_line (''cpu  100 100 0 0 0 0 0 0 0 0\<newline>'') = Inr (100, 200)"
  by (simp add: cpu_times_line_def active_indeces_def parse_defs)

lemma line_100_201:
  "cpu_times_line (''cpu  101 100 0 0 0 0 0 0 0 0\<newline>'') = Inr (100, 201)"
  by (simp add: cpu_times_line_def active_indeces_def parse_defs)

theorem cpu_load_formula_witness:
  "cpu_load (Some (100, 200)) (stat_world (\<lambda>k. ''cpu  130 120 0 0 0 0 0 0 0 0\<newline>''))
     = Inr (60, Some (120, 250),
            (stat_world (\<lambda>k. ''cpu  130 120 0 0 0 0 0 0 0 0\<newline>''))\<lparr>stat_calls := 1\<rparr>)
   \<and> cpu_load (Some (100, 200)) (stat_world (\<lambda>k. ''cpu  100 150 0 0 0 0 0 0 0 0\<newline>''))
     = Inr (0, Some (150, 250),
            (stat_world (\<lambda>k. ''cpu  100 150 0 0 0 0 0 0 0 0\<newline>''))\<lparr>stat_calls := 1\<rparr>)
   \<and> cpu_load (Some (100, 200)) (stat_world (\<lambda>k. ''cpu  100 100 0 0 0 0 0 0 0 0\<newline>''))
     = Inr (0, Some (100, 200),
            (stat_world (\<lambda>k. ''cpu  100 100 0 0 0 0 0 0 0 0\<newline>''))\<lparr>stat_calls := 1\<rparr>)"
proof -
  let ?w1 = "stat_world (\<lambda>k. ''cpu  130 120 0 0 0 0 0 0 0 0\<newline>'')"
  let ?w2 = "stat_world (\<lambda>k. ''cpu  100 150 0 0 0 0 0 0 0 0\<newline>'')"
  let ?w3 = "stat_world (\<lambda>k. ''cpu  100 100 0 0 0 0 0 0 0 0\<newline>'')"
  have h1: "cpu_times ?w1 = Inr ((120, 250), ?w1\<lparr>stat_calls := 1\<rparr>)"
    by (simp add: cpu_times_def stat_world_def line_120_250)
  have h2: "cpu_times ?w2 = Inr ((150, 250), ?w2\<lparr>stat_calls := 1\<rparr>)"
    by (simp add: cpu_times_def stat_world_def line_150_250)
  have h3: "cpu_times ?w3 = Inr ((100, 200), ?w3\<lparr>stat_calls := 1\<rparr>)"
    by (simp add: cpu_times_def stat_world_def line_100_200)
  show ?thesis
    using cpu_load_formula [OF h1, of 100 200] cpu_load_formula [OF h2, of 100 200]
      cpu_load_formula [OF h3, of 100 200]
    by simp
qed

text \<open>
  C4, as stated, fails: on the first call the two reads of the counters are separate
  reads of \<^verbatim>\<open>/proc/stat\<close>. When one tick passes between them, the first call
  returns 100 and not 0.
\<close>

theorem cpu_load_first_call_counterexample:
  "cpu_load None
     (stat_world (\<lambda>k. if k = 0 then ''cpu  100 100 0 0 0 0 0 0 0 0\<newline>''
                       else ''cpu  101 100 0 0 0 0 0 0 0 0\<newline>''))
   = Inr (100, Some (100, 201),
          (stat_world (\<lambda>k. if k = 0 then ''cpu  100 100 0 0 0 0 0 0 0 0\<newline>''
                       else ''cpu  101 100 0 0 0 0 0 0 0 0\<newline>''))\<lparr>stat_calls := 2\<rparr>)"
  by (simp add: cpu_load_def cpu_times_def stat_world_def line_100_200 line_100_201 load_expr_def)

text \<open>
  C4, amended. On its first call \<^verbatim>\<open>cpu_load\<close> reads the counters twice. It returns
  0.0 when the two reads report the same total (so whenever they report the same
  snapshot); otherwise it returns the load between the first read and the second.
\<close>

theorem cpu_load_first_call:
  assumes "cpu_times w = Inr ((active0, total0), w1)"
    and "cpu_times w1 = Inr ((active1, total1), w2)"
  shows "cpu_load None w =
           Inr (if total1 = total0 then 0
                else 100 * (real_of_int (total1 - total0) - real_of_int (active1 - active0))
                     / real_of_int (total1 - total0),
                Some (active1, total1), w2)
         \<and> stat_calls w2 = stat_calls w + 2"
proof -
  have "w1 = w\<lparr>stat_calls := stat_calls w + 1\<rparr>"
    using assms(1) by (rule cpu_times_calls)
  moreover have "w2 = w1\<lparr>stat_calls := stat_calls w1 + 1\<rparr>"
    using assms(2) by (rule cpu_times_calls)
  ultimately have calls: "stat_calls w2 = stat_calls w + 2"
    by simp
  have "cpu_load None w = Inr (if total1 = total0 then 0
                else 100 * (real_of_int (total1 - total0) - real_of_int (active1 - active0))
                     / real_of_int (total1 - total0),
                Some (active1, total1), w2)"
    using assms by (simp add: cpu_load_def load_expr_cases)
  with calls show ?thesis by simp
qed

theorem cpu_load_first_call_witness:
  "cpu_load None (stat_world (\<lambda>k. ''cpu  100 100 0 0 0 0 0 0 0 0\<newline>''))
     = Inr (0, Some (100, 200),
            (stat_world (\<lambda>k. ''cpu  100 100 0 0 0 0 0 0 0 0\<newline>''))\<lparr>stat_calls := 2\<rparr>)
   \<and> stat_calls ((stat_world (\<lambda>k. ''cpu  100 100 0 0 0 0 0 0 0 0\<newline>''))\<lparr>stat_calls := 2\<rparr>)
       = stat_calls (stat_world (\<lambda>k. ''cpu  100 100 0 0 0 0 0 0 0 0\<newline>'')) + 2"
proof -
  let ?w = "stat_world (\<lambda>k. ''cpu  100 100 0 0 0 0 0 0 0 0\<newline>'')"
  have h1: "cpu_times ?w = Inr ((100, 200), ?w\<lparr>stat_calls := 1\<rparr>)"
    by (simp add: cpu_times_def stat_world_def line_100_200)
  have h2: "cpu_times (?w\<lparr>stat_calls := 1\<rparr>) = Inr ((100, 200), ?w\<lparr>stat_calls := 2\<rparr>)"
    by (simp add: cpu_times_def stat_world_def line_100_200)
  show ?thesis
    using cpu_load_first_call [OF h1 h2] by simp
qed

text \<open>
  What the loop of \<^verbatim>\<open>cpu_times\<close> adds up on a line of ten counters: the positions 1,
  2, 3, 7 and 8 after the slice, which are nice, system, idle, steal and guest.
\<close>

lemma cpu_times_loop_ten:
  assumes "py_int e0 = Inr user" "py_int e1 = Inr nice" "py_int e2 = Inr system"
    "py_int e3 = Inr idle" "py_int e4 = Inr iowait" "py_int e5 = Inr irq"
    "py_int e6 = Inr softirq" "py_int e7 = Inr steal" "py_int e8 = Inr guest"
    "py_int e9 = Inr guest_nice"
  shows "cpu_times_loop 0 [e0, e1, e2, e3, e4, e5, e6, e7, e8, e9] (0, 0) =
           Inr (nice + system + idle + steal + guest,
                user + nice + system + idle + iowait + irq + softirq + steal + guest
                  + guest_nice)"
  using assms by (simp add: active_indeces_def)

text \<open>
  C3. On the first line of \<^verbatim>\<open>/proc/stat\<close> with user 2255, nice 34, system 2290, idle
  22625563, iowait 6290, irq 127, softirq 456 and steal, guest, guest_nice 0,
  \<^verbatim>\<open>cpu_times\<close> returns as active the sum of nice, system, idle, steal and guest, which
  is not the sum of user, nice, system, softirq and steal.
\<close>

theorem cpu_times_active_columns:
  "cpu_times_line (''cpu  2255 34 2290 22625563 6290 127 456 0 0 0\<newline>'')
     = Inr (34 + 2290 + 22625563 + 0 + 0, 2255 + 34 + 2290 + 22625563 + 6290 + 127 + 456 + 0 + 0 + 0)
   \<and> (34 + 2290 + 22625563 + 0 + 0 :: int) \<noteq> 2255 + 34 + 2290 + 456 + 0"
  by (simp add: cpu_times_line_def active_indeces_def parse_defs)

section \<open>Properties of the console alert\<close>









section \<open>Properties of the main loop\<close>

lemma on_interrupt_simps [simp]:
  "status (on_interrupt cfg s) = Exited 0"
  "next_tick (on_interrupt cfg s) = next_tick s"
  "trace (on_interrupt cfg s) =
     trace s @ (if CSV_File cfg \<noteq> None then [CsvClose] else []) @ [PrintNewline]"
  by (simp_all add: on_interrupt_def)

lemma do_sleep_simps [simp]:
  "status (do_sleep s) = status s"
  "next_tick (do_sleep s) = next_tick s"
  "data (do_sleep s) = data s"
  "trace (do_sleep s) =
     trace s @ (if 0 < next_tick s - time_src (world s) (time_calls (world s))
                then [Sleep (next_tick s - time_src (world s) (time_calls (world s)))] else [])"
  by (simp_all add: do_sleep_def time_time_def Let_def)

lemma do_alert_simps [simp]:
  "status (do_alert cfg s) = status s"
  "next_tick (do_alert cfg s) = next_tick s"
  "data (do_alert cfg s) = data s"
  "trace (do_alert cfg s) =
     trace s @ (if fst (console_throttling_alert (Console_Alert cfg) (data_throttled (data s))
                          (last_beep s) (world s)) then [Bell] else [])"
  by (simp_all add: do_alert_def split: prod.splits)

lemma do_csv_simps [simp]:
  "status (do_csv cfg s) = status s"
  "next_tick (do_csv cfg s) = next_tick s"
  "data (do_csv cfg s) = data s"
  "trace (do_csv cfg s) =
     trace s @ (if CSV_File cfg \<noteq> None then [CsvRow (row (Logging_Level cfg) (data s))] else [])"
  by (simp_all add: do_csv_def)

lemma do_print_simps [simp]:
  "status (do_print s) = status s"
  "next_tick (do_print s) = next_tick s"
  "data (do_print s) = data s"
  "trace (do_print s) = trace s @ [StatusLine (data s)]"
  by (simp_all add: do_print_def)






lemma scheduler_start_simps [simp]:
  "next_tick (scheduler_start cfg w) = time_src w (time_calls w) + 0.5"
  "status (scheduler_start cfg w) = Running"
  "trace (scheduler_start cfg w) = []"
  by (simp_all add: scheduler_start_def time_time_def)







end
